theory Spec2Isabelle
  imports Complex_Main "HOL-Library.Sublist" "HOL-Library.Word"
begin

section \<open>JavaScript numbers\<close>

text \<open>
  The front-end computes on JavaScript numbers. Finite numbers are modelled as
  real numbers; the three non-finite results an operation of the source can produce
  are values of their own, so that a division by zero, a square root of a negative
  number and an arc sine outside \<open>[-1, 1]\<close> are branches of the model.

  The rounding of IEEE doubles is not modelled. The model and the code agree where
  the arithmetic of the code is exact or a comparison is decided with a margin, as
  at the inputs evaluated below. They differ where rounding decides: in doubles the
  cosine of a latitude of 90 degrees is \<open>6.1e-17\<close> and not zero, the value \<open>a\<close> of
  \<open>haversine\<close> exceeds 1 at some nearly antipodal pairs (the result is then NaN),
  and a square below the smallest double underflows to zero.
\<close>

datatype jsnum = NaN | NegInf | Num real | PosInf

text \<open>\<open>x / y\<close> for finite operands; a zero divisor counts as \<open>+0\<close>.\<close>

definition js_div :: "real \<Rightarrow> real \<Rightarrow> jsnum" where
  "js_div x y =
     (if y = 0 then (if 0 < x then PosInf else if x < 0 then NegInf else NaN)
      else Num (x / y))"

text \<open>\<open>x + y\<close> and \<open>x - y\<close> for a finite \<open>x\<close>.\<close>

fun js_add :: "real \<Rightarrow> jsnum \<Rightarrow> jsnum" where
  "js_add x NaN = NaN"
| "js_add x NegInf = NegInf"
| "js_add x (Num y) = Num (x + y)"
| "js_add x PosInf = PosInf"

fun js_sub :: "real \<Rightarrow> jsnum \<Rightarrow> jsnum" where
  "js_sub x NaN = NaN"
| "js_sub x NegInf = PosInf"
| "js_sub x (Num y) = Num (x - y)"
| "js_sub x PosInf = NegInf"

text \<open>\<open>c * y\<close> for a finite \<open>c\<close>.\<close>

fun js_times :: "real \<Rightarrow> jsnum \<Rightarrow> jsnum" where
  "js_times c NaN = NaN"
| "js_times c (Num y) = Num (c * y)"
| "js_times c PosInf = (if 0 < c then PosInf else if c < 0 then NegInf else NaN)"
| "js_times c NegInf = (if 0 < c then NegInf else if c < 0 then PosInf else NaN)"

text \<open>Comparisons of a finite number with a bound; every comparison with NaN is false.\<close>

fun js_gt :: "real \<Rightarrow> jsnum \<Rightarrow> bool" where
  "js_gt x NaN = False"
| "js_gt x NegInf = True"
| "js_gt x (Num y) = (y < x)"
| "js_gt x PosInf = False"

fun js_lt :: "real \<Rightarrow> jsnum \<Rightarrow> bool" where
  "js_lt x NaN = False"
| "js_lt x NegInf = False"
| "js_lt x (Num y) = (x < y)"
| "js_lt x PosInf = True"

fun js_le :: "jsnum \<Rightarrow> real \<Rightarrow> bool" where
  "js_le NaN y = False"
| "js_le NegInf y = True"
| "js_le (Num x) y = (x \<le> y)"
| "js_le PosInf y = False"

text \<open>\<open>Math.sqrt\<close> and \<open>Math.asin\<close>: NaN outside their domains.\<close>

definition js_sqrt :: "real \<Rightarrow> jsnum" where
  "js_sqrt x = (if x < 0 then NaN else Num (sqrt x))"

fun js_asin :: "jsnum \<Rightarrow> jsnum" where
  "js_asin (Num x) = (if - 1 \<le> x \<and> x \<le> 1 then Num (arcsin x) else NaN)"
| "js_asin NaN = NaN"
| "js_asin NegInf = NaN"
| "js_asin PosInf = NaN"

section \<open>Front-end helpers\<close>

text \<open>\<open>const R = 6371e3\<close>, the Earth radius in metres, and \<open>toRad\<close>.\<close>

definition R :: real where
  "R = 6371000"

definition toRad :: "real \<Rightarrow> real" where
  "toRad d = d * pi / 180"

record bbox =
  latMin :: real
  latMax :: real
  lonMin :: jsnum
  lonMax :: jsnum

text \<open>
  \<open>boundingBox(lat, lon, r = 500)\<close>, with the radius explicit. At a latitude of 90
  or -90 degrees the cosine is exactly zero here and the bounds of the longitude are
  infinite; in doubles the cosine is \<open>6.1e-17\<close> and the bounds lie about \<open>7.3e13\<close>
  degrees from the viewer, farther than the longitude of any feature.
\<close>

definition boundingBox :: "real \<Rightarrow> real \<Rightarrow> real \<Rightarrow> bbox" where
  "boundingBox lat lon r =
     (let dLat = (r / R) * 180 / pi;
          dLon = js_div dLat (cos (toRad lat))
      in \<lparr> latMin = lat - dLat, latMax = lat + dLat,
           lonMin = js_sub lon dLon, lonMax = js_add lon dLon \<rparr>)"

text \<open>The default value of the parameter \<open>r\<close>.\<close>

definition boundingBox_default_r :: real where
  "boundingBox_default_r = 500"

text \<open>Both front-end files define \<open>haversine\<close> with the same body.\<close>

definition haversine :: "real \<Rightarrow> real \<Rightarrow> real \<Rightarrow> real \<Rightarrow> jsnum" where
  "haversine lat1 lon1 lat2 lon2 =
     (let dLat = toRad (lat2 - lat1);
          dLon = toRad (lon2 - lon1);
          a = (sin (dLat / 2))\<^sup>2 +
              cos (toRad lat1) * cos (toRad lat2) * (sin (dLon / 2))\<^sup>2
      in js_times (2 * R) (js_asin (js_sqrt a)))"

text \<open>The value \<open>a\<close> computed inside \<open>haversine\<close>, named for the proofs.\<close>

definition hav_a :: "real \<Rightarrow> real \<Rightarrow> real \<Rightarrow> real \<Rightarrow> real" where
  "hav_a lat1 lon1 lat2 lon2 =
     (sin (toRad (lat2 - lat1) / 2))\<^sup>2 +
     cos (toRad lat1) * cos (toRad lat2) * (sin (toRad (lon2 - lon1) / 2))\<^sup>2"

section \<open>Data file\<close>

text \<open>
  A JSON value, as \<open>JSON.parse\<close> returns it and as the properties of a feature
  hold it.
\<close>

datatype json =
    JNull
  | JBool bool
  | JNum real
  | JStr string
  | JArr "json list"
  | JObj "(string \<times> json) list"

text \<open>
  A feature of \<open>stores.geojson\<close>: \<open>geometry.coordinates\<close> and the properties the
  batch job writes.
\<close>

record feature =
  coordinates :: "real list"
  name :: string
  website :: string
  headline :: json
  discount :: json

section \<open>Proximity filter\<close>

text \<open>The literal \<open>10000\<close> of the distance test, in metres.\<close>

definition radius :: real where
  "radius = 10000"

text \<open>The four strict comparisons with the bounds of the box.\<close>

definition inside :: "bbox \<Rightarrow> real \<Rightarrow> real \<Rightarrow> bool" where
  "inside b lt lng =
     (latMin b < lt \<and> lt < latMax b \<and> js_gt lng (lonMin b) \<and> js_lt lng (lonMax b))"

text \<open>
  The callback of \<open>geojson.features.filter\<close> in the filtering front-end:
  \<open>const [lng, lt] = f.geometry.coordinates\<close> leaves a missing element undefined,
  and every comparison with undefined is false.
\<close>

definition keep :: "real \<Rightarrow> real \<Rightarrow> feature \<Rightarrow> bool" where
  "keep lat lon f =
     (let b = boundingBox lat lon boundingBox_default_r in
      case coordinates f of
        lng # lt # _ \<Rightarrow> inside b lt lng \<and> js_le (haversine lat lon lt lng) radius
      | _ \<Rightarrow> False)"

text \<open>\<open>hits\<close> of the filtering front-end.\<close>

definition hits :: "real \<Rightarrow> real \<Rightarrow> feature list \<Rightarrow> feature list" where
  "hits lat lon features = filter (keep lat lon) features"





section \<open>Batch job\<close>

text \<open>
  The batch job talks to three collaborators. Each is a parameter of the model:
  the places service answers a query for a centre with a list of places or fails,
  the text-generation service answers the \<open>n\<close>-th call for a URL with an output
  text or fails, and \<open>JSON.parse\<close> returns a value or throws (\<open>None\<close>).
  What the job does to the outside is recorded as a list of effects.
\<close>

type_synonym location = "real \<times> real"

record place =
  place_id :: "string option"
  location :: "location option"
  displayName :: "string option"
  websiteUri :: "string option"

text \<open>\<open>process.env\<close>, once \<open>dotenv\<close> has loaded \<open>.env\<close>; \<open>None\<close> is an unset variable.\<close>

record env =
  GOOGLE_API_KEY :: "string option"
  OPENAI_API_KEY :: "string option"

datatype error = MissingKeys | PlacesError string | ApiError string | TypeError | WriteError

text \<open>
  The output text of the text-generation service is trimmed and parsed, so its
  characters matter: it is a list of UTF-16 code units, as a JavaScript string is.
\<close>

type_synonym utf16 = "16 word list"

datatype response = Rejected string | OutputText utf16

datatype effect = PlacesQuery location | Classify string | WriteFile "feature list"

datatype outcome = Thrown error | Finished

type_synonym places_service = "location \<Rightarrow> string + place list"
type_synonym classifier = "nat \<Rightarrow> string \<Rightarrow> response"
type_synonym json_parse = "utf16 \<Rightarrow> json option"

text \<open>A string that may be undefined is truthy when it is defined and not empty.\<close>

definition truthy_str :: "string option \<Rightarrow> bool" where
  "truthy_str s = (case s of None \<Rightarrow> False | Some t \<Rightarrow> t \<noteq> [])"

fun truthy :: "json \<Rightarrow> bool" where
  "truthy JNull = False"
| "truthy (JBool b) = b"
| "truthy (JNum x) = (x \<noteq> 0)"
| "truthy (JStr t) = (t \<noteq> [])"
| "truthy (JArr xs) = True"
| "truthy (JObj kvs) = True"

text \<open>
  Reading one of the properties \<open>sale\<close>, \<open>headline\<close>, \<open>discount\<close> of a parsed
  value: a TypeError on null, undefined (\<open>None\<close>) on a value that is not an object
  or has no such key.
\<close>

fun get_prop :: "json \<Rightarrow> string \<Rightarrow> error + json option" where
  "get_prop JNull k = Inl TypeError"
| "get_prop (JObj kvs) k = Inr (map_of kvs k)"
| "get_prop (JBool b) k = Inr None"
| "get_prop (JNum x) k = Inr None"
| "get_prop (JStr t) k = Inr None"
| "get_prop (JArr xs) k = Inr None"

text \<open>Truthiness of a property that may be undefined, and \<open>v || d\<close>.\<close>

definition truthy_prop :: "json option \<Rightarrow> bool" where
  "truthy_prop v = (case v of None \<Rightarrow> False | Some x \<Rightarrow> truthy x)"

definition or_else :: "json option \<Rightarrow> json \<Rightarrow> json" where
  "or_else v d = (case v of None \<Rightarrow> d | Some x \<Rightarrow> if truthy x then x else d)"

text \<open>
  \<open>String.prototype.trim\<close> removes the white space and the line terminators of
  ECMAScript at both ends: TAB, LF, VT, FF, CR, the space, the no-break space, the
  other space separators of Unicode (U+1680, U+2000 to U+200A, U+202F, U+205F,
  U+3000), the line and paragraph separators and the byte order mark. Each is one
  code unit.
\<close>

definition is_ws :: "16 word \<Rightarrow> bool" where
  "is_ws c =
     (c \<in> set [0x0009, 0x000A, 0x000B, 0x000C, 0x000D, 0x0020, 0x00A0, 0x1680,
               0x2000, 0x2001, 0x2002, 0x2003, 0x2004, 0x2005, 0x2006, 0x2007,
               0x2008, 0x2009, 0x200A, 0x2028, 0x2029, 0x202F, 0x205F, 0x3000,
               0xFEFF])"

definition trim :: "utf16 \<Rightarrow> utf16" where
  "trim t = rev (dropWhile is_ws (rev (dropWhile is_ws t)))"

definition no_sale :: json where
  "no_sale = JObj [(''sale'', JBool False)]"

text \<open>
  \<open>analyzeSite\<close>, given the answer of the text-generation service to its request:
  a failed request throws; a text that does not parse gives \<open>{sale: false}\<close>.
\<close>

definition analyzeSite :: "json_parse \<Rightarrow> response \<Rightarrow> error + json" where
  "analyzeSite parse resp =
     (case resp of
        Rejected msg \<Rightarrow> Inl (ApiError msg)
      | OutputText txt \<Rightarrow>
          (case parse (trim txt) of None \<Rightarrow> Inr no_sale | Some v \<Rightarrow> Inr v))"

text \<open>
  The thirteen code units of the text \<open>{"sale":true}\<close>, and \<open>JSON.parse\<close> at the two
  texts of the example of the malformed response below: it returns the object with
  \<open>sale\<close> true on that text and throws on a text that begins with a code unit no
  JSON text begins with. On other texts \<open>parse_sale_true\<close> is not \<open>JSON.parse\<close>.
\<close>

definition sale_true_text :: utf16 where
  "sale_true_text =
     [0x7B, 0x22, 0x73, 0x61, 0x6C, 0x65, 0x22, 0x3A, 0x74, 0x72, 0x75, 0x65, 0x7D]"

definition parse_sale_true :: json_parse where
  "parse_sale_true t =
     (if t = sale_true_text then Some (JObj [(''sale'', JBool True)]) else None)"

text \<open>
  The body of the \<open>try\<close> block of the main loop for the store \<open>p\<close> with website
  \<open>url\<close> and display name \<open>nm\<close>: the feature pushed, if any, or the exception.
\<close>

definition try_store :: "json_parse \<Rightarrow> response \<Rightarrow> place \<Rightarrow> string \<Rightarrow> string \<Rightarrow> error + feature option" where
  "try_store parse resp p url nm =
     (case analyzeSite parse resp of
        Inl e \<Rightarrow> Inl e
      | Inr info \<Rightarrow>
          (case get_prop info ''sale'' of
             Inl e \<Rightarrow> Inl e
           | Inr sale \<Rightarrow>
               if truthy_prop sale then
                 (case get_prop info ''headline'' of
                    Inl e \<Rightarrow> Inl e
                  | Inr h \<Rightarrow>
                      (case get_prop info ''discount'' of
                         Inl e \<Rightarrow> Inl e
                       | Inr d \<Rightarrow>
                           (case location p of
                              None \<Rightarrow> Inl TypeError
                            | Some (latitude, longitude) \<Rightarrow>
                                Inr (Some \<lparr> coordinates = [longitude, latitude],
                                            name = nm, website = url,
                                            headline = or_else h (JStr ''Sale''),
                                            discount = or_else d JNull \<rparr>))))
               else Inr None))"

text \<open>The \<open>catch\<close> of the main loop logs the exception and goes on.\<close>

definition store_step :: "json_parse \<Rightarrow> response \<Rightarrow> place \<Rightarrow> string \<Rightarrow> feature option" where
  "store_step parse resp p url =
     (let nm = (case displayName p of
                  None \<Rightarrow> ''(unnamed)''
                | Some t \<Rightarrow> if t = [] then ''(unnamed)'' else t)
      in case try_store parse resp p url nm of Inl e \<Rightarrow> None | Inr r \<Rightarrow> r)"

text \<open>
  The loop over the stores: a store without a website is skipped without a call;
  \<open>n\<close> counts the calls made so far. The features come out in the order of the
  stores, as \<open>features.push\<close> appends them.
\<close>

fun analyse :: "json_parse \<Rightarrow> classifier \<Rightarrow> nat \<Rightarrow> place list \<Rightarrow> effect list \<times> feature list" where
  "analyse parse classify n [] = ([], [])"
| "analyse parse classify n (p # ps) =
     (case websiteUri p of
        None \<Rightarrow> analyse parse classify n ps
      | Some url \<Rightarrow>
          if url = [] then analyse parse classify n ps
          else
            (let (evs, fs) = analyse parse classify (Suc n) ps in
             (Classify url # evs,
              (case store_step parse (classify n url) p url of
                 None \<Rightarrow> fs
               | Some f \<Rightarrow> f # fs))))"

text \<open>
  \<open>byId\<close>, a JavaScript \<open>Map\<close>: the entries in insertion order. \<open>has\<close> and \<open>set\<close>
  are the methods of \<open>Map\<close>.
\<close>

type_synonym byId = "(string \<times> place) list"

definition has :: "byId \<Rightarrow> string \<Rightarrow> bool" where
  "has m k = (map_of m k \<noteq> None)"

definition map_set :: "byId \<Rightarrow> string \<Rightarrow> place \<Rightarrow> byId" where
  "map_set m k v =
     (if has m k then map (\<lambda>(k', v'). if k' = k then (k', v) else (k', v')) m
      else m @ [(k, v)])"

definition has_id :: "place \<Rightarrow> bool" where
  "has_id p = truthy_str (place_id p)"

text \<open>The inner loop of step 1: \<open>if (p.id && !byId.has(p.id)) byId.set(p.id, p)\<close>.\<close>

fun merge_places :: "byId \<Rightarrow> place list \<Rightarrow> byId" where
  "merge_places m [] = m"
| "merge_places m (p # ps) =
     merge_places
       (case place_id p of
          None \<Rightarrow> m
        | Some k \<Rightarrow> if k \<noteq> [] \<and> \<not> has m k then map_set m k p else m)
       ps"

text \<open>The outer loop of step 1; a failed query throws and ends the run.\<close>

fun collect :: "places_service \<Rightarrow> location list \<Rightarrow> nat \<Rightarrow> byId \<Rightarrow> effect list \<times> (error + nat \<times> byId)" where
  "collect places [] rawCount m = ([], Inr (rawCount, m))"
| "collect places (loc # locs) rawCount m =
     (case places loc of
        Inl msg \<Rightarrow> ([PlacesQuery loc], Inl (PlacesError msg))
      | Inr ps \<Rightarrow>
          (let (evs, r) = collect places locs (rawCount + length ps) (merge_places m ps)
           in (PlacesQuery loc # evs, r)))"

text \<open>
  What the rest of the run reads of the result of \<open>collect\<close>: \<open>rawCount\<close> is only
  logged.
\<close>

definition forget :: "effect list \<times> (error + nat \<times> byId) \<Rightarrow> effect list \<times> (error + byId)" where
  "forget r = (fst r, case snd r of Inl err \<Rightarrow> Inl err | Inr (c, m) \<Rightarrow> Inr m)"

definition LOCATIONS :: "location list" where
  "LOCATIONS =
     [(60.169168, 24.930956), (60.168984, 24.938293), (60.169759, 24.944180),
      (60.167177, 24.945747), (60.162641, 24.939496), (60.156900, 24.919279),
      (60.160070, 24.880104), (60.187699, 24.979896), (60.198076, 24.930052),
      (60.181829, 24.950918)]"

text \<open>
  The multi-centre job: the check of the keys at the top of the module, then the
  main flow. \<open>fs_ok\<close> tells whether writing the file succeeds.
\<close>

definition main :: "env \<Rightarrow> places_service \<Rightarrow> classifier \<Rightarrow> json_parse \<Rightarrow> bool \<Rightarrow> effect list \<times> outcome" where
  "main e places classify parse fs_ok =
     (if \<not> truthy_str (GOOGLE_API_KEY e) \<or> \<not> truthy_str (OPENAI_API_KEY e)
      then ([], Thrown MissingKeys)
      else
        (case collect places LOCATIONS 0 [] of
           (evs, Inl err) \<Rightarrow> (evs, Thrown err)
         | (evs, Inr (rawCount, m)) \<Rightarrow>
             (let (evs', features) = analyse parse classify 0 (map snd m) in
              (evs @ evs' @ [WriteFile features],
               if fs_ok then Finished else Thrown WriteError))))"

text \<open>The single-centre job of \<open>app.js\<close>: one query, no merge.\<close>

definition center :: location where
  "center = (60.169168, 24.930956)"

definition main_single :: "env \<Rightarrow> places_service \<Rightarrow> classifier \<Rightarrow> json_parse \<Rightarrow> bool \<Rightarrow> effect list \<times> outcome" where
  "main_single e places classify parse fs_ok =
     (if \<not> truthy_str (GOOGLE_API_KEY e) \<or> \<not> truthy_str (OPENAI_API_KEY e)
      then ([], Thrown MissingKeys)
      else
        (case places center of
           Inl msg \<Rightarrow> ([PlacesQuery center], Thrown (PlacesError msg))
         | Inr ps \<Rightarrow>
             (let (evs', features) = analyse parse classify 0 ps in
              (PlacesQuery center # evs' @ [WriteFile features],
               if fs_ok then Finished else Thrown WriteError))))"

section \<open>The great-circle distance\<close>

lemma haversine_hav_a:
  "haversine lat1 lon1 lat2 lon2 =
     js_times (2 * R) (js_asin (js_sqrt (hav_a lat1 lon1 lat2 lon2)))"
  by (simp add: haversine_def hav_a_def Let_def)

text \<open>
  Whatever the value of \<open>a\<close>, the result is a finite number or NaN, and a comparison
  with NaN is false: a distance that passes \<open><=\<close> is a number.
\<close>

lemma haversine_le_Num:
  assumes "js_le (haversine lat1 lon1 lat2 lon2) y"
  shows "\<exists>d. haversine lat1 lon1 lat2 lon2 = Num d \<and> d \<le> y"
proof (cases "hav_a lat1 lon1 lat2 lon2 < 0")
  case True
  then have "haversine lat1 lon1 lat2 lon2 = NaN"
    by (simp add: haversine_hav_a js_sqrt_def)
  with assms show ?thesis by simp
next
  case False
  show ?thesis
  proof (cases "sqrt (hav_a lat1 lon1 lat2 lon2) \<le> 1")
    case True
    have "0 \<le> sqrt (hav_a lat1 lon1 lat2 lon2)" using False by simp
    then have "- 1 \<le> sqrt (hav_a lat1 lon1 lat2 lon2)" by linarith
    then have "haversine lat1 lon1 lat2 lon2 =
        Num (2 * R * arcsin (sqrt (hav_a lat1 lon1 lat2 lon2)))"
      using False True by (simp add: haversine_hav_a js_sqrt_def)
    with assms show ?thesis by simp
  next
    case gt: False
    then have "haversine lat1 lon1 lat2 lon2 = NaN"
      using False by (simp add: haversine_hav_a js_sqrt_def)
    with assms show ?thesis by simp
  qed
qed

text \<open>Where \<open>a\<close> is zero, so is the distance.\<close>

lemma haversine_a_zero:
  "hav_a lat1 lon1 lat2 lon2 = 0 \<Longrightarrow> haversine lat1 lon1 lat2 lon2 = Num 0"
  by (simp add: haversine_hav_a js_sqrt_def)

lemma toRad_range:
  assumes "- 90 \<le> x" "x \<le> 90"
  shows "- (pi / 2) \<le> toRad x \<and> toRad x \<le> pi / 2"
proof -
  have "- 90 * pi \<le> x * pi" "x * pi \<le> 90 * pi"
    using assms mult_right_mono [of "- 90" x pi] mult_right_mono [of x 90 pi] by simp_all
  then show ?thesis by (simp add: toRad_def)
qed

subsection \<open>Where the distance is zero\<close>

text \<open>
  C6 (as amended): \<open>haversine\<close> of a coordinate pair and itself is zero, for every
  pair. Every intermediate value is an exact zero, in doubles as in the reals: the
  two differences, their sines and squares, the sum \<open>a\<close>, its square root and the arc
  sine. Nothing is stated for two different pairs.
\<close>

theorem haversine_self_zero:
  "haversine lat lon lat lon = Num 0"
proof -
  have "toRad (lat - lat) = 0" "toRad (lon - lon) = 0"
    by (simp_all add: toRad_def)
  then have "hav_a lat lon lat lon = 0"
    by (simp add: hav_a_def)
  then show ?thesis
    by (rule haversine_a_zero)
qed

text \<open>
  The converse fails: two pairs at the north pole that differ in longitude by
  \<open>1e-150\<close> degrees are at distance zero. Here the second summand of \<open>a\<close> vanishes
  with the cosine of the latitude; in doubles the cosine is \<open>6.1e-17\<close> and the
  summand, of the order of \<open>1e-337\<close>, underflows to zero, with the same result.
\<close>

theorem haversine_zero_at_pole:
  "haversine 90 0 90 (1 / 10 ^ 150) = Num 0 \<and> (0::real) \<noteq> 1 / 10 ^ 150"
proof -
  have "hav_a 90 0 90 (1 / 10 ^ 150) = 0" by (simp add: hav_a_def toRad_def)
  then have "haversine 90 0 90 (1 / 10 ^ 150) = Num 0" by (rule haversine_a_zero)
  then show ?thesis by simp
qed

section \<open>The proximity filter\<close>

lemma dLat_default:
  "0 < boundingBox_default_r / R * 180 / pi \<and> boundingBox_default_r / R * 180 / pi < 1 / 100"
proof -
  have "90000 < 63710 * pi" using pi_ge_two by linarith
  then show ?thesis
    by (simp add: boundingBox_default_r_def R_def field_simps)
qed

lemma dLat_radius: "1 / 100 < radius / R * 180 / pi"
proof -
  have "63710 * pi < 1800000" using pi_less_4 by linarith
  then show ?thesis
    by (simp add: radius_def R_def field_simps)
qed

text \<open>The bounding box of a viewer at latitude 0 and longitude 0.\<close>

lemma boundingBox_equator:
  "boundingBox 0 0 r =
     \<lparr> latMin = - (r / R * 180 / pi), latMax = r / R * 180 / pi,
       lonMin = Num (- (r / R * 180 / pi)), lonMax = Num (r / R * 180 / pi) \<rparr>"
  by (simp add: boundingBox_def Let_def js_div_def toRad_def)

lemma haversine_origin: "haversine 0 0 0 0 = Num 0"
proof -
  have "hav_a 0 0 0 0 = 0" by (simp add: hav_a_def toRad_def)
  then show ?thesis by (rule haversine_a_zero)
qed

text \<open>Due north of that viewer the distance is the arc length.\<close>

lemma haversine_north:
  assumes "0 \<le> x" "x \<le> 90"
  shows "haversine 0 0 x 0 = Num (R * toRad x)"
proof -
  have "0 \<le> toRad x" using assms by (simp add: toRad_def)
  moreover have "toRad x \<le> pi / 2" using toRad_range [of x] assms by simp
  ultimately have r: "- (pi / 2) \<le> toRad x / 2" "toRad x / 2 \<le> pi / 2"
      "0 \<le> toRad x / 2" "toRad x / 2 \<le> pi"
    using pi_ge_zero by linarith+
  then have s: "0 \<le> sin (toRad x / 2)" by (simp add: sin_ge_zero)
  have a: "hav_a 0 0 x 0 = (sin (toRad x / 2))\<^sup>2"
    by (simp add: hav_a_def toRad_def)
  then have "sqrt (hav_a 0 0 x 0) = sin (toRad x / 2)"
    using s by simp
  then have q: "sqrt (hav_a 0 0 x 0) = sin (toRad x / 2)"
      and "arcsin (sqrt (hav_a 0 0 x 0)) = toRad x / 2"
    using r by (simp_all add: arcsin_sin)
  moreover have "0 \<le> hav_a 0 0 x 0" "- 1 \<le> sqrt (hav_a 0 0 x 0)" "sqrt (hav_a 0 0 x 0) \<le> 1"
    unfolding q using a s by simp_all
  ultimately show ?thesis by (simp add: haversine_hav_a js_sqrt_def)
qed

lemma near_north: "R * toRad (1 / 100) \<le> radius"
proof -
  have "63710 * pi \<le> 1800000" using pi_less_4 by linarith
  then show ?thesis by (simp add: R_def toRad_def radius_def)
qed

lemma hits_north_rejected:
  "hits 0 0 [\<lparr> coordinates = [0, 1 / 100], name = nm, website = w,
                headline = h, discount = d \<rparr>] = []"
proof -
  have "\<not> 1 / 100 < boundingBox_default_r / R * 180 / pi"
    using dLat_default by linarith
  then show ?thesis
    by (simp add: hits_def keep_def inside_def boundingBox_equator)
qed

text \<open>
  C1: the filter of the filtering front-end does not take the bounding box at the
  radius of 10,000 m of its distance test: \<open>boundingBox(lat, lon)\<close> is called with
  its default radius of 500 m. For a viewer at latitude 0 and longitude 0, a
  feature 0.01 degrees due north (about 1,112 m away) is strictly inside the
  bounding box computed at 10,000 m and its distance is at most 10,000 m, and the
  filter rejects it.
\<close>

theorem hits_rejects_feature_within_radius:
  "hits 0 0 [\<lparr> coordinates = [0, 1 / 100], name = ''A'', website = ''https://a.example'',
                headline = JStr ''Sale'', discount = JNull \<rparr>] = [] \<and>
   inside (boundingBox 0 0 radius) (1 / 100) 0 \<and>
   (\<exists>d. haversine 0 0 (1 / 100) 0 = Num d \<and> d \<le> radius)"
proof -
  have "0 < radius / R * 180 / pi" using dLat_radius by linarith
  then have 2: "inside (boundingBox 0 0 radius) (1 / 100) 0"
    using dLat_radius by (simp add: inside_def boundingBox_equator)
  have 3: "haversine 0 0 (1 / 100) 0 = Num (R * toRad (1 / 100))"
    by (rule haversine_north) simp_all
  show ?thesis using hits_north_rejected 2 3 near_north by simp
qed

text \<open>
  C2: for every viewer location and every feature collection, every feature the
  filter accepts has its first two coordinates defined and a distance from the
  viewer of at most 10,000 m.
\<close>

theorem hits_within_radius:
  "f \<in> set (hits lat lon fs) \<Longrightarrow>
     \<exists>lng lt rest d. coordinates f = lng # lt # rest \<and>
        haversine lat lon lt lng = Num d \<and> d \<le> radius"
  by (auto simp: hits_def keep_def Let_def split: list.splits dest: haversine_le_Num)

theorem hits_within_radius_witness:
  "\<lparr> coordinates = [0, 0], name = ''A'', website = ''https://a.example'',
      headline = JStr ''Sale'', discount = JNull \<rparr>
     \<in> set (hits 0 0 [\<lparr> coordinates = [0, 0], name = ''A'', website = ''https://a.example'',
      headline = JStr ''Sale'', discount = JNull \<rparr>]) \<and>
   (\<exists>d. haversine 0 0 0 0 = Num d \<and> d \<le> radius)"
proof -
  have "\<lparr> coordinates = [0, 0], name = ''A'', website = ''https://a.example'',
      headline = JStr ''Sale'', discount = JNull \<rparr>
     \<in> set (hits 0 0 [\<lparr> coordinates = [0, 0], name = ''A'', website = ''https://a.example'',
      headline = JStr ''Sale'', discount = JNull \<rparr>])"
    using dLat_default
    by (simp add: hits_def keep_def inside_def boundingBox_equator haversine_origin radius_def)
  then show ?thesis
    using hits_within_radius [of _ 0 0] by fastforce
qed

text \<open>
  C7: for every input feature collection, the output of the filter is a
  subsequence of the input: the accepted features, in the order of the input.
\<close>

theorem hits_subseq:
  "subseq (hits lat lon fs) fs \<and> hits lat lon fs = filter (keep lat lon) fs"
  by (simp add: hits_def)





section \<open>The batch job\<close>

subsection \<open>Merging the results of the query centres\<close>

lemma map_of_map_set_new:
  "\<not> has m k \<Longrightarrow> map_of (map_set m k v) k' = (if k' = k then Some v else map_of m k')"
  by (auto simp: map_set_def has_def map_of_append map_add_def split: option.splits)

lemma merge_places_map_of:
  "map_of (merge_places m ps) k =
     (case map_of m k of
        Some v \<Rightarrow> Some v
      | None \<Rightarrow> if k = [] then None else find (\<lambda>p. place_id p = Some k) ps)"
proof (induction ps arbitrary: m)
  case Nil
  then show ?case by (simp split: option.splits)
next
  case (Cons p ps)
  show ?case
  proof (cases "place_id p")
    case None
    then show ?thesis by (simp add: Cons.IH split: option.splits)
  next
    case (Some k')
    show ?thesis
    proof (cases "k' \<noteq> [] \<and> \<not> has m k'")
      case True
      then show ?thesis
        using Some by (auto simp: Cons.IH map_of_map_set_new has_def split: option.splits)
    next
      case False
      then show ?thesis
        using Some by (auto simp: Cons.IH has_def split: option.splits)
    qed
  qed
qed

lemma fst_set_map_set_new: "\<not> has m k \<Longrightarrow> map fst (map_set m k v) = map fst m @ [k]"
  by (simp add: map_set_def)

lemma has_iff: "has m k \<longleftrightarrow> k \<in> set (map fst m)"
  by (simp add: has_def map_of_eq_None_iff)

lemma merge_places_distinct:
  "distinct (map fst m) \<Longrightarrow> distinct (map fst (merge_places m ps))"
proof (induction ps arbitrary: m)
  case Nil
  then show ?case by simp
next
  case (Cons p ps)
  show ?case
  proof (cases "place_id p")
    case None
    then show ?thesis using Cons by simp
  next
    case (Some k)
    show ?thesis
    proof (cases "k \<noteq> [] \<and> \<not> has m k")
      case True
      then have "distinct (map fst (map_set m k p))"
        using Cons.prems by (simp add: fst_set_map_set_new has_iff)
      then show ?thesis using Some True Cons.IH by simp
    next
      case False
      then show ?thesis using Some Cons by auto
    qed
  qed
qed

lemma merge_places_append:
  "merge_places m (xs @ ys) = merge_places (merge_places m xs) ys"
  by (induction xs arbitrary: m) simp_all

lemma collect_all_ok:
  "collect (\<lambda>loc. Inr (rs loc)) locs raw m =
     (map PlacesQuery locs,
      Inr (raw + sum_list (map (\<lambda>loc. length (rs loc)) locs),
           merge_places m (concat (map rs locs))))"
  by (induction locs arbitrary: raw m) (simp_all add: merge_places_append)

text \<open>
  C3: for every sequence of result sets of the query centres, the merged collection
  has exactly one entry for each place id that occurs in them (the keys are
  distinct, and a key has an entry exactly when some place carries it), and that
  entry is the place of the first occurrence of the id in query order: a later
  occurrence never replaces it. A place id is a non-empty string.
\<close>

theorem merge_first_occurrence_wins:
  "\<exists>rawCount m.
     collect (\<lambda>loc. Inr (rs loc)) locs 0 [] = (map PlacesQuery locs, Inr (rawCount, m)) \<and>
     distinct (map fst m) \<and>
     (\<forall>k. map_of m k =
        (if k = [] then None else find (\<lambda>p. place_id p = Some k) (concat (map rs locs))))"
proof -
  let ?m = "merge_places [] (concat (map rs locs))"
  have "distinct (map fst ?m)" by (rule merge_places_distinct) simp
  moreover have "\<forall>k. map_of ?m k =
        (if k = [] then None else find (\<lambda>p. place_id p = Some k) (concat (map rs locs)))"
    by (simp add: merge_places_map_of)
  ultimately show ?thesis by (simp add: collect_all_ok)
qed

theorem merge_first_occurrence_wins_witness:
  "\<exists>rawCount m.
     collect (\<lambda>loc. Inr (if loc = (0, 0)
         then [\<lparr> place_id = Some ''a'', location = Some (60, 24), displayName = Some ''First'',
                 websiteUri = Some ''https://a.example'' \<rparr>]
         else [\<lparr> place_id = Some ''a'', location = Some (60, 24), displayName = Some ''Second'',
                 websiteUri = None \<rparr>,
               \<lparr> place_id = Some ''b'', location = Some (61, 25), displayName = None,
                 websiteUri = None \<rparr>]))
       [(0, 0), (1, 1)] 0 [] = (map PlacesQuery [(0, 0), (1, 1)], Inr (rawCount, m)) \<and>
     distinct (map fst m) \<and>
     map_of m ''a'' = Some \<lparr> place_id = Some ''a'', location = Some (60, 24),
                              displayName = Some ''First'', websiteUri = Some ''https://a.example'' \<rparr> \<and>
     map_of m ''b'' = Some \<lparr> place_id = Some ''b'', location = Some (61, 25), displayName = None,
                 websiteUri = None \<rparr>"
proof -
  let ?rs = "\<lambda>loc::location. if loc = (0, 0)
         then [\<lparr> place_id = Some ''a'', location = Some (60, 24), displayName = Some ''First'',
                 websiteUri = Some ''https://a.example'' \<rparr>]
         else [\<lparr> place_id = Some ''a'', location = Some (60, 24), displayName = Some ''Second'',
                 websiteUri = None \<rparr>,
               \<lparr> place_id = Some ''b'', location = Some (61, 25), displayName = None,
                 websiteUri = None \<rparr>]"
  obtain rawCount m where
    c: "collect (\<lambda>loc. Inr (?rs loc)) [(0, 0), (1, 1)] 0 [] =
          (map PlacesQuery [(0, 0), (1, 1)], Inr (rawCount, m))"
    and d: "distinct (map fst m)"
    and f: "\<forall>k. map_of m k =
        (if k = [] then None else find (\<lambda>p. place_id p = Some k) (concat (map ?rs [(0, 0), (1, 1)])))"
    using merge_first_occurrence_wins [of ?rs "[(0, 0), (1, 1)]"] by blast
  from f have "map_of m ''a'' = find (\<lambda>p. place_id p = Some ''a'') (concat (map ?rs [(0, 0), (1, 1)]))"
    by simp
  then have a: "map_of m ''a'' = Some \<lparr> place_id = Some ''a'', location = Some (60, 24),
                              displayName = Some ''First'', websiteUri = Some ''https://a.example'' \<rparr>"
    by simp
  from f have "map_of m ''b'' = find (\<lambda>p. place_id p = Some ''b'') (concat (map ?rs [(0, 0), (1, 1)]))"
    by simp
  then have b: "map_of m ''b'' = Some \<lparr> place_id = Some ''b'', location = Some (61, 25), displayName = None,
                 websiteUri = None \<rparr>"
    by simp
  from c d a b show ?thesis by blast
qed

subsection \<open>Places without an id\<close>

lemma merge_places_has_id:
  "\<forall>p \<in> set (map snd m). has_id p \<Longrightarrow> \<forall>p \<in> set (map snd (merge_places m ps)). has_id p"
proof (induction ps arbitrary: m)
  case Nil
  then show ?case by simp
next
  case (Cons p ps)
  show ?case
  proof (cases "place_id p")
    case None
    then show ?thesis using Cons by simp
  next
    case (Some k)
    show ?thesis
    proof (cases "k \<noteq> [] \<and> \<not> has m k")
      case True
      then have "\<forall>q \<in> set (map snd (map_set m k p)). has_id q"
        using Cons.prems Some by (auto simp: map_set_def has_id_def truthy_str_def)
      then show ?thesis using Some True Cons.IH by simp
    next
      case False
      then show ?thesis using Some Cons by auto
    qed
  qed
qed

lemma merge_places_filter: "merge_places m (filter has_id ps) = merge_places m ps"
  by (induction ps arbitrary: m)
     (auto simp: has_id_def truthy_str_def split: option.splits)

lemma collect_filter:
  "forget (collect (\<lambda>loc. map_sum id (filter has_id) (places loc)) locs raw' m) =
   forget (collect places locs raw m)"
proof (induction locs arbitrary: raw raw' m)
  case Nil
  then show ?case by (simp add: forget_def)
next
  case (Cons loc locs)
  show ?case
  proof (cases "places loc")
    case (Inl msg)
    then show ?thesis by (simp add: forget_def)
  next
    case (Inr ps)
    then show ?thesis
      using Cons.IH [of "raw' + length (filter has_id ps)" "merge_places m ps" "raw + length ps"]
      by (auto simp: merge_places_filter forget_def split: prod.splits)
  qed
qed

lemma main_forget:
  "main e places classify parse fs_ok =
     (if \<not> truthy_str (GOOGLE_API_KEY e) \<or> \<not> truthy_str (OPENAI_API_KEY e)
      then ([], Thrown MissingKeys)
      else
        (case forget (collect places LOCATIONS 0 []) of
           (evs, Inl err) \<Rightarrow> (evs, Thrown err)
         | (evs, Inr m) \<Rightarrow>
             (let (evs', features) = analyse parse classify 0 (map snd m) in
              (evs @ evs' @ [WriteFile features],
               if fs_ok then Finished else Thrown WriteError))))"
  by (simp add: main_def forget_def split: prod.splits sum.splits)

text \<open>
  C10: a place whose id is missing or empty is dropped by the merge: every place of
  the merged collection has an id, and the whole run (the queries, the
  classification calls, the file written and the outcome) is the run in which the
  places service never returned the places without an id.
\<close>

theorem no_id_dropped:
  "(\<forall>p \<in> set (map snd (merge_places [] ps)). has_id p) \<and>
   main e (\<lambda>loc. map_sum id (filter has_id) (places loc)) classify parse fs_ok =
   main e places classify parse fs_ok"
proof
  show "\<forall>p \<in> set (map snd (merge_places [] ps)). has_id p"
    by (rule merge_places_has_id) simp
next
  show "main e (\<lambda>loc. map_sum id (filter has_id) (places loc)) classify parse fs_ok =
   main e places classify parse fs_ok"
    unfolding main_forget collect_filter [of places LOCATIONS 0 "[]" 0] ..
qed

theorem no_id_dropped_witness:
  "main \<lparr> GOOGLE_API_KEY = Some ''gk'', OPENAI_API_KEY = Some ''sk'' \<rparr>
        (\<lambda>loc. Inr [\<lparr> place_id = None, location = Some (60, 24), displayName = Some ''Shop'',
                         websiteUri = Some ''https://shop.example'' \<rparr>])
        (\<lambda>n url. OutputText sale_true_text)
        parse_sale_true True =
     (map PlacesQuery LOCATIONS @ [WriteFile []], Finished)"
proof -
  let ?e = "\<lparr> GOOGLE_API_KEY = Some ''gk'', OPENAI_API_KEY = Some ''sk'' \<rparr>"
  let ?places = "\<lambda>loc::location. (Inr [\<lparr> place_id = None, location = Some (60, 24), displayName = Some ''Shop'',
                         websiteUri = Some ''https://shop.example'' \<rparr>] :: string + place list)"
  have "main ?e (\<lambda>loc. map_sum id (filter has_id) (?places loc)) (\<lambda>n url. OutputText sale_true_text)
        parse_sale_true True =
     (map PlacesQuery LOCATIONS @ [WriteFile []], Finished)"
    by (simp add: main_def truthy_str_def has_id_def LOCATIONS_def)
  then show ?thesis
    using no_id_dropped [of "[]" ?e ?places "\<lambda>n url. OutputText sale_true_text"
            parse_sale_true True]
    by simp
qed

subsection \<open>Missing credentials\<close>

text \<open>
  C9: if \<open>GOOGLE_API_KEY\<close> or \<open>OPENAI_API_KEY\<close> is absent from the environment (or
  empty), the batch job throws at startup with no effect at all: no places query,
  no classification call and no file write. This holds for the multi-centre job
  and for the single-centre job.
\<close>

theorem missing_keys_abort:
  "\<not> truthy_str (GOOGLE_API_KEY e) \<or> \<not> truthy_str (OPENAI_API_KEY e) \<Longrightarrow>
   main e places classify parse fs_ok = ([], Thrown MissingKeys) \<and>
   main_single e places classify parse fs_ok = ([], Thrown MissingKeys)"
  by (auto simp: main_def main_single_def)

theorem missing_keys_abort_witness:
  "main \<lparr> GOOGLE_API_KEY = None, OPENAI_API_KEY = Some ''sk'' \<rparr>
        (\<lambda>loc. Inr []) (\<lambda>n url. Rejected []) (\<lambda>t. None) True = ([], Thrown MissingKeys) \<and>
   main_single \<lparr> GOOGLE_API_KEY = None, OPENAI_API_KEY = Some ''sk'' \<rparr>
        (\<lambda>loc. Inr []) (\<lambda>n url. Rejected []) (\<lambda>t. None) True = ([], Thrown MissingKeys)"
  using missing_keys_abort [of "\<lparr> GOOGLE_API_KEY = None, OPENAI_API_KEY = Some ''sk'' \<rparr>"
          "\<lambda>loc. Inr []" "\<lambda>n url. Rejected []" "\<lambda>t. None" True]
  by (simp add: truthy_str_def)

subsection \<open>Malformed classification responses\<close>

lemma analyse_append:
  "analyse parse classify n (qs @ ps) =
     (fst (analyse parse classify n qs) @
        fst (analyse parse classify (n + length (fst (analyse parse classify n qs))) ps),
      snd (analyse parse classify n qs) @
        snd (analyse parse classify (n + length (fst (analyse parse classify n qs))) ps))"
proof (induction qs arbitrary: n)
  case Nil
  then show ?case by simp
next
  case (Cons q qs)
  show ?case
  proof (cases "websiteUri q")
    case None
    then show ?thesis by (simp add: Cons.IH)
  next
    case (Some url)
    then show ?thesis
      by (simp add: Cons.IH [of "Suc n"] Cons.IH [of n] split: prod.splits option.splits)
  qed
qed

lemma analyzeSite_unparseable:
  "parse (trim body) = None \<Longrightarrow> analyzeSite parse (OutputText body) = Inr no_sale"
  by (simp add: analyzeSite_def)

lemma store_step_unparseable:
  "parse (trim body) = None \<Longrightarrow> store_step parse (OutputText body) p url = None"
  by (simp add: store_step_def try_store_def analyzeSite_def no_sale_def truthy_prop_def Let_def)

lemma analyse_skip:
  assumes "websiteUri p = Some url" "url \<noteq> []"
    and "classify n url = OutputText body" "parse (trim body) = None"
    and "analyse parse classify (Suc n) ps = (evs, fs)"
  shows "analyse parse classify n (p # ps) = (Classify url # evs, fs)"
  using assms by (simp add: store_step_unparseable)

lemma trim_sale_true_text:
  "trim (0x0B # sale_true_text @ [0xA0]) = sale_true_text"
  by (simp add: trim_def is_ws_def sale_true_text_def)

lemma trim_sorry: "trim [0x53, 0x6F, 0x72, 0x72, 0x79] = [0x53, 0x6F, 0x72, 0x72, 0x79]"
  by (simp add: trim_def is_ws_def)

text \<open>
  C4 (as amended): when the response text of the classifier for a store, trimmed as
  \<open>String.prototype.trim\<close> does it, does not parse as JSON, \<open>analyzeSite\<close> returns
  \<open>{sale: false}\<close> and the batch job does not throw: with both keys set, all place
  queries answered and the file written, the run finishes, and the feature
  collection written holds the features of the stores before and after that store
  and none for it.
\<close>

theorem malformed_response_skipped:
  assumes "truthy_str (GOOGLE_API_KEY e)" "truthy_str (OPENAI_API_KEY e)"
    and "collect places LOCATIONS 0 [] = (evs, Inr (rawCount, m))"
    and "map snd m = qs @ p # ps"
    and "websiteUri p = Some url" "url \<noteq> []"
    and "analyse parse classify 0 qs = (evs1, fs1)"
    and "classify (length evs1) url = OutputText body" "parse (trim body) = None"
    and "analyse parse classify (Suc (length evs1)) ps = (evs2, fs2)"
  shows "analyzeSite parse (classify (length evs1) url) = Inr no_sale \<and>
         main e places classify parse True =
           (evs @ evs1 @ Classify url # evs2 @ [WriteFile (fs1 @ fs2)], Finished)"
proof
  show "analyzeSite parse (classify (length evs1) url) = Inr no_sale"
    using assms(8,9) by (simp add: analyzeSite_unparseable)
next
  have "analyse parse classify (length evs1) (p # ps) = (Classify url # evs2, fs2)"
    using assms(5,6,8,9,10) by (rule analyse_skip)
  then have "analyse parse classify 0 (map snd m) = (evs1 @ Classify url # evs2, fs1 @ fs2)"
    using assms(7) by (simp add: assms(4) analyse_append [of parse classify 0 qs "p # ps"])
  then show "main e places classify parse True =
           (evs @ evs1 @ Classify url # evs2 @ [WriteFile (fs1 @ fs2)], Finished)"
    using assms(1,2,3) by (simp add: main_def)
qed

text \<open>
  An instance: every centre returns the same store and the service answers with the
  text \<open>Sorry\<close>.
\<close>

theorem malformed_response_skipped_witness:
  "analyzeSite parse_sale_true (OutputText [0x53, 0x6F, 0x72, 0x72, 0x79]) = Inr no_sale \<and>
   main \<lparr> GOOGLE_API_KEY = Some ''gk'', OPENAI_API_KEY = Some ''sk'' \<rparr>
        (\<lambda>loc. Inr [\<lparr> place_id = Some ''a'', location = Some (60, 24), displayName = Some ''Shop'',
                         websiteUri = Some ''https://shop.example'' \<rparr>])
        (\<lambda>n url. OutputText [0x53, 0x6F, 0x72, 0x72, 0x79])
        parse_sale_true True =
     (map PlacesQuery LOCATIONS @ [Classify ''https://shop.example'', WriteFile []], Finished)"
proof -
  let ?e = "\<lparr> GOOGLE_API_KEY = Some ''gk'', OPENAI_API_KEY = Some ''sk'' \<rparr>"
  let ?p = "\<lparr> place_id = Some ''a'', location = Some (60, 24), displayName = Some ''Shop'',
                         websiteUri = Some ''https://shop.example'' \<rparr>"
  let ?places = "\<lambda>loc::location. (Inr [?p] :: string + place list)"
  let ?classify = "\<lambda>(n::nat) (url::string). OutputText [0x53, 0x6F, 0x72, 0x72, 0x79]"
  have c: "collect ?places LOCATIONS 0 [] = (map PlacesQuery LOCATIONS, Inr (10, [(''a'', ?p)]))"
    by (simp add: LOCATIONS_def has_def map_set_def)
  have n: "parse_sale_true (trim [0x53, 0x6F, 0x72, 0x72, 0x79]) = None"
    unfolding trim_sorry by (simp add: parse_sale_true_def sale_true_text_def)
  have "analyzeSite parse_sale_true (?classify (length ([] :: effect list)) ''https://shop.example'') =
          Inr no_sale \<and>
        main ?e ?places ?classify parse_sale_true True =
          (map PlacesQuery LOCATIONS @ [] @ Classify ''https://shop.example'' # [] @
             [WriteFile ([] @ [])], Finished)"
    by (rule malformed_response_skipped [where qs = "[]" and ps = "[]" and p = "?p"
              and m = "[(''a'', ?p)]" and rawCount = 10
              and body = "[0x53, 0x6F, 0x72, 0x72, 0x79]"])
       (simp_all add: truthy_str_def c n)
  then show ?thesis by simp
qed

text \<open>
  The hypothesis is on the trimmed text. A response text that \<open>JSON.parse\<close> itself
  rejects can still be taken for a sale: the text \<open>{"sale":true}\<close> between a vertical
  tab and a no-break space does not parse, since neither is white space of JSON;
  \<open>trim\<close> removes both, \<open>analyzeSite\<close> returns the object with \<open>sale\<close> true, and the
  store is written to the file.
\<close>

theorem unparseable_text_not_skipped:
  "parse_sale_true (0x0B # sale_true_text @ [0xA0]) = None \<and>
   analyzeSite parse_sale_true (OutputText (0x0B # sale_true_text @ [0xA0])) =
     Inr (JObj [(''sale'', JBool True)]) \<and>
   main \<lparr> GOOGLE_API_KEY = Some ''gk'', OPENAI_API_KEY = Some ''sk'' \<rparr>
        (\<lambda>loc. Inr [\<lparr> place_id = Some ''a'', location = Some (60, 24), displayName = Some ''Shop'',
                         websiteUri = Some ''https://shop.example'' \<rparr>])
        (\<lambda>n url. OutputText (0x0B # sale_true_text @ [0xA0]))
        parse_sale_true True =
     (map PlacesQuery LOCATIONS @
        [Classify ''https://shop.example'',
         WriteFile [\<lparr> coordinates = [24, 60], name = ''Shop'',
                       website = ''https://shop.example'',
                       headline = JStr ''Sale'', discount = JNull \<rparr>]],
      Finished)"
proof -
  let ?e = "\<lparr> GOOGLE_API_KEY = Some ''gk'', OPENAI_API_KEY = Some ''sk'' \<rparr>"
  let ?p = "\<lparr> place_id = Some ''a'', location = Some (60, 24), displayName = Some ''Shop'',
                         websiteUri = Some ''https://shop.example'' \<rparr>"
  let ?places = "\<lambda>loc::location. (Inr [?p] :: string + place list)"
  have 1: "parse_sale_true (0x0B # sale_true_text @ [0xA0]) = None"
    by (simp add: parse_sale_true_def sale_true_text_def)
  have 2: "analyzeSite parse_sale_true (OutputText (0x0B # sale_true_text @ [0xA0])) =
     Inr (JObj [(''sale'', JBool True)])"
    by (simp add: analyzeSite_def trim_sale_true_text parse_sale_true_def)
  have c: "collect ?places LOCATIONS 0 [] = (map PlacesQuery LOCATIONS, Inr (10, [(''a'', ?p)]))"
    by (simp add: LOCATIONS_def has_def map_set_def)
  have 3: "store_step parse_sale_true (OutputText (0x0B # sale_true_text @ [0xA0])) ?p
             ''https://shop.example'' =
           Some \<lparr> coordinates = [24, 60], name = ''Shop'', website = ''https://shop.example'',
                  headline = JStr ''Sale'', discount = JNull \<rparr>"
    by (simp add: store_step_def try_store_def 2 truthy_prop_def or_else_def)
  have "main ?e ?places (\<lambda>n url. OutputText (0x0B # sale_true_text @ [0xA0]))
          parse_sale_true True =
     (map PlacesQuery LOCATIONS @
        [Classify ''https://shop.example'',
         WriteFile [\<lparr> coordinates = [24, 60], name = ''Shop'',
                       website = ''https://shop.example'',
                       headline = JStr ''Sale'', discount = JNull \<rparr>]],
      Finished)"
    by (simp add: main_def truthy_str_def c 3)
  with 1 2 show ?thesis by simp
qed

end
